theory Spec2Isabelle
  imports Complex_Main "HOL-Library.Signed_Division" "HOL-Library.Log_Nat" "HOL-Library.Sublist"
begin

section \<open>The \<open>source\<close> subcommand of the vSphere plugin\<close>

text \<open>
  A shallow embedding of \<^verbatim>\<open>plugins/vsphere/pkg/command/source.go\<close>. Go strings are
  \<open>string\<close>, a nil-able pointer is an \<open>option\<close>, a Go \<^verbatim>\<open>(value, error)\<close> pair is a
  sum with the error on the left. A Go \<^verbatim>\<open>error\<close> is represented by the text that
  \<^verbatim>\<open>%+v\<close> renders for it, which is all the command ever does with one.
\<close>

subsection \<open>Data model\<close>

text \<open>
  \<^verbatim>\<open>SourceOptions\<close>, field by field. \<^verbatim>\<open>time.Duration\<close> is an \<^verbatim>\<open>int64\<close> count of
  nanoseconds; it is kept as an \<open>int\<close> and the 64-bit range is stated where it matters.
\<close>

record SourceOptions =
  Namespace :: string
  Name :: string
  Address :: string
  SkipTLSVerify :: bool
  SecretRef :: string
  SinkURI :: string
  SinkAPIVersion :: string
  SinkKind :: string
  SinkName :: string
  CheckpointMaxAge :: int
  CheckpointPeriod :: int

text \<open>
  \<^verbatim>\<open>duckv1.KReference\<close> and \<^verbatim>\<open>duckv1.Destination\<close>, with the fields the command
  sets. Field names that several Go structs share carry the struct as a prefix. The type
  \<open>'u\<close> stands for a parsed \<^verbatim>\<open>url.URL\<close> (\<^verbatim>\<open>apis.URL\<close> is the same struct under
  another name).
\<close>

record KReference =
  APIVersion :: string
  Kind :: string
  RefNamespace :: string
  RefName :: string

record 'u Destination =
  Ref :: "KReference option"
  URI :: "'u option"

subsection \<open>Building the sink destination\<close>

text \<open>
  \<^verbatim>\<open>url.Parse\<close> belongs to Go's standard library. Every function that calls it takes
  it as the parameter \<open>parse\<close>, of type \<open>string \<Rightarrow> string + 'u\<close>.
\<close>

definition sinkURL :: "(string \<Rightarrow> string + 'u) \<Rightarrow> SourceOptions \<Rightarrow> string + 'u option" where
  "sinkURL parse so =
     (if SinkURI so = [] then Inr None
      else case parse (SinkURI so) of
             Inl err \<Rightarrow> Inl err
           | Inr address \<Rightarrow> Inr (Some address))"

definition sinkReference :: "SourceOptions \<Rightarrow> string \<Rightarrow> KReference option" where
  "sinkReference so namespace =
     (if SinkAPIVersion so = [] then None
      else Some \<lparr>APIVersion = SinkAPIVersion so,
                 Kind = SinkKind so,
                 RefNamespace = namespace,
                 RefName = SinkName so\<rparr>)"

definition AsSinkDestination ::
  "(string \<Rightarrow> string + 'u) \<Rightarrow> SourceOptions \<Rightarrow> string \<Rightarrow> string + 'u Destination" where
  "AsSinkDestination parse so namespace =
     (case sinkURL parse so of
        Inl err \<Rightarrow> Inl err
      | Inr apiURL \<Rightarrow> Inr \<lparr>Ref = sinkReference so namespace, URI = apiURL\<rparr>)"

subsection \<open>Validation (\<^verbatim>\<open>PreRunE\<close>)\<close>

definition newline :: char where
  "newline = CHR 0x0A"

definition quote :: char where
  "quote = CHR 0x27"

definition name_required :: string where
  "name_required =
     quote # ''name'' @ quote # '' requires a nonempty name provided with the --name option''"

definition address_required :: string where
  "address_required =
     quote # ''address'' @
     quote # '' requires a nonempty address provided with the --address option''"

definition secret_ref_required :: string where
  "secret_ref_required =
     quote # ''secret-ref'' @
     quote # '' requires a nonempty secret reference provided with the --secret-ref option''"

definition sink_required :: string where
  "sink_required =
     ''sink requires an URI'' @
     newline # ''and/or a nonempty API version --sink-api-version option,'' @
     newline # ''with a nonempty kind --sink-kind option,'' @
     newline # ''and with a nonempty name with the --sink-name''"

definition sinkCoordinatesAllEmpty :: "SourceOptions \<Rightarrow> bool" where
  "sinkCoordinatesAllEmpty options \<longleftrightarrow>
     SinkAPIVersion options = [] \<and> SinkKind options = [] \<and> SinkName options = []"

definition sinkCoordinatesAllSet :: "SourceOptions \<Rightarrow> bool" where
  "sinkCoordinatesAllSet options \<longleftrightarrow>
     SinkAPIVersion options \<noteq> [] \<and> SinkKind options \<noteq> [] \<and> SinkName options \<noteq> []"

text \<open>The result is the returned error, \<open>None\<close> for Go's \<^verbatim>\<open>nil\<close>.\<close>

definition PreRunE :: "SourceOptions \<Rightarrow> string option" where
  "PreRunE options =
     (if Name options = [] then Some name_required
      else if Address options = [] then Some address_required
      else if SecretRef options = [] then Some secret_ref_required
      else if SinkURI options = [] \<and> sinkCoordinatesAllEmpty options \<or>
              (\<not> sinkCoordinatesAllEmpty options \<and> \<not> sinkCoordinatesAllSet options)
           then Some sink_required
      else None)"

subsection \<open>Durations as seconds\<close>

text \<open>
  \<^verbatim>\<open>newSource\<close> stores \<^verbatim>\<open>int64(d.Seconds())\<close>. In Go's \<^verbatim>\<open>time\<close> package
  \<^verbatim>\<open>
  func (d Duration) Seconds() float64 {
      sec := d / Second
      nsec := d % Second
      return float64(sec) + float64(nsec)/1e9
  }
  \<close>
  so the value passes through IEEE 754 binary64 arithmetic. Binary64 is modelled exactly
  on the rationals: every operation returns the exact result rounded to the nearest number
  with a 53-bit significand, ties to the even significand. The exponent is not bounded,
  which agrees with binary64 wherever the result is zero or has a magnitude between
  \<open>2\<^sup>-\<^sup>1\<^sup>0\<^sup>2\<^sup>2\<close> and \<open>2\<^sup>1\<^sup>0\<^sup>2\<^sup>4\<close>; the values met here are zero or lie between
  \<open>10\<^sup>-\<^sup>9\<close> and \<open>2\<^sup>3\<^sup>4\<close>.
\<close>

definition Second :: int where
  "Second = 1000000000"

text \<open>Round to the nearest integer, a tie to the even one.\<close>

definition round_half_even :: "rat \<Rightarrow> int" where
  "round_half_even x =
     (let n = \<lfloor>x\<rfloor>; r = x - of_int n
      in if r < 1 / 2 then n
         else if 1 / 2 < r then n + 1
         else if even n then n else n + 1)"

text \<open>For \<open>x > 0\<close>, the exponent \<open>e\<close> with \<open>2\<^sup>e \<le> x < 2\<^sup>e\<^sup>+\<^sup>1\<close>.\<close>

definition binade :: "rat \<Rightarrow> int" where
  "binade x = (if 1 \<le> x then bitlen \<lfloor>x\<rfloor> - 1 else - bitlen (\<lceil>1 / x\<rceil> - 1))"

definition float64 :: "rat \<Rightarrow> rat" where
  "float64 x =
     (if x = 0 then 0
      else let u = power_int 2 (binade \<bar>x\<bar> - 52)
           in sgn x * (of_int (round_half_even (\<bar>x\<bar> / u)) * u))"

text \<open>
  Go's \<^verbatim>\<open>/\<close> and \<^verbatim>\<open>%\<close> on integers truncate toward zero (\<open>sdiv\<close>, \<open>smod\<close>). The
  conversions \<^verbatim>\<open>float64(sec)\<close> and \<^verbatim>\<open>float64(nsec)\<close>, the division by the constant
  \<^verbatim>\<open>1e9\<close> and the addition each round once.
\<close>

definition Seconds :: "int \<Rightarrow> rat" where
  "Seconds d =
     (let sec = d sdiv Second; nsec = d smod Second
      in float64 (float64 (of_int sec) + float64 (float64 (of_int nsec) / 1000000000)))"

text \<open>
  The conversion \<^verbatim>\<open>int64(f)\<close> discards the fraction (truncation toward zero). For an
  \<^verbatim>\<open>int64\<close> duration the argument has a magnitude below \<open>2\<^sup>3\<^sup>4\<close>, so the conversion is
  always in range.
\<close>

definition int64_of_float :: "rat \<Rightarrow> int" where
  "int64_of_float f = (if 0 \<le> f then \<lfloor>f\<rfloor> else \<lceil>f\<rceil>)"

subsection \<open>The resource (\<^verbatim>\<open>newSource\<close>)\<close>

text \<open>
  \<^verbatim>\<open>v1alpha1.VSphereSource\<close> with the fields \<^verbatim>\<open>newSource\<close> fills in; every other
  field keeps Go's zero value and is left out.
\<close>

record ObjectMeta =
  MetaNamespace :: string
  MetaName :: string

record 'u SourceSpec =
  Sink :: "'u Destination"

record LocalObjectReference =
  LocalName :: string

record 'u VAuthSpec =
  VAddress :: 'u
  VSkipTLSVerify :: bool
  VSecretRef :: LocalObjectReference

record VCheckpointSpec =
  MaxAgeSeconds :: int
  PeriodSeconds :: int

record 'u VSphereSourceSpec =
  SourceSpec :: "'u SourceSpec"
  VAuthSpec :: "'u VAuthSpec"
  CheckpointConfig :: VCheckpointSpec

record 'u VSphereSource =
  ObjectMeta :: ObjectMeta
  Spec :: "'u VSphereSourceSpec"

definition newSource ::
  "string \<Rightarrow> 'u Destination \<Rightarrow> 'u \<Rightarrow> SourceOptions \<Rightarrow> 'u VSphereSource" where
  "newSource namespace sinkDestination address options =
     \<lparr>ObjectMeta = \<lparr>MetaNamespace = namespace, MetaName = Name options\<rparr>,
      Spec = \<lparr>SourceSpec = \<lparr>Sink = sinkDestination\<rparr>,
              VAuthSpec = \<lparr>VAddress = address,
                           VSkipTLSVerify = SkipTLSVerify options,
                           VSecretRef = \<lparr>LocalName = SecretRef options\<rparr>\<rparr>,
              CheckpointConfig =
                \<lparr>MaxAgeSeconds = int64_of_float (Seconds (CheckpointMaxAge options)),
                 PeriodSeconds = int64_of_float (Seconds (CheckpointPeriod options))\<rparr>\<rparr>\<rparr>"

subsection \<open>Running the command (\<^verbatim>\<open>RunE\<close>)\<close>

text \<open>
  The injected \<^verbatim>\<open>pkg.Clients\<close>: the namespace resolver and the answer of the typed
  client to a create request (\<open>None\<close> for success, the command drops the returned object).
  The effects of a run are the create requests issued, in order, and the bytes written
  to the command's output.
\<close>

record 'u Clients =
  GetExplicitOrDefaultNamespace :: "string \<Rightarrow> string + string"
  Create :: "string \<Rightarrow> 'u VSphereSource \<Rightarrow> string option"

record 'u World =
  creates :: "(string \<times> 'u VSphereSource) list"
  stdout :: string

definition RunE ::
  "(string \<Rightarrow> string + 'u) \<Rightarrow> 'u Clients \<Rightarrow> SourceOptions \<Rightarrow> 'u World
     \<Rightarrow> string option \<times> 'u World" where
  "RunE parse clients options w =
     (case GetExplicitOrDefaultNamespace clients (Namespace options) of
        Inl err \<Rightarrow> (Some (''failed to get namespace: '' @ err), w)
      | Inr namespace \<Rightarrow>
     (case parse (Address options) of
        Inl err \<Rightarrow> (Some (''failed to parse source address: '' @ err), w)
      | Inr address \<Rightarrow>
     (case AsSinkDestination parse options namespace of
        Inl err \<Rightarrow> (Some (''failed to parse sink address: '' @ err), w)
      | Inr sinkDestination \<Rightarrow>
     (let source = newSource namespace sinkDestination address options;
          w' = w\<lparr>creates := creates w @ [(namespace, source)]\<rparr>
      in case Create clients namespace source of
           Some err \<Rightarrow> (Some (''failed to create source: '' @ err), w')
         | None \<Rightarrow> (None, w'\<lparr>stdout := stdout w' @ ''Created source'' @ [newline]\<rparr>)))))"

text \<open>
  The command framework (cobra) calls \<^verbatim>\<open>PreRunE\<close> first and calls \<^verbatim>\<open>RunE\<close> only
  when \<^verbatim>\<open>PreRunE\<close> returned \<^verbatim>\<open>nil\<close>; either error is returned to the caller. Its
  check of the flags marked required comes between the two and passes whenever
  \<^verbatim>\<open>PreRunE\<close> does: a non-empty value differs from the default \<^verbatim>\<open>""\<close>, so the flag
  was given.
\<close>

definition execute ::
  "(string \<Rightarrow> string + 'u) \<Rightarrow> 'u Clients \<Rightarrow> SourceOptions \<Rightarrow> 'u World
     \<Rightarrow> string option \<times> 'u World" where
  "execute parse clients options w =
     (case PreRunE options of
        Some err \<Rightarrow> (Some err, w)
      | None \<Rightarrow> RunE parse clients options w)"

subsection \<open>The namespace resolver\<close>

text \<open>
  Modelled from the spec: \<^verbatim>\<open>Clients.GetExplicitOrDefaultNamespace\<close> of the plugin's
  package \<^verbatim>\<open>pkg\<close>, which is not among the sources at hand. The spec (4.1, step 1):
  ``if \<^verbatim>\<open>namespace\<close> option is empty, ask the namespace-resolution collaborator for the
  caller's default; otherwise use the given value verbatim.'' The parameter \<open>dflt\<close> is
  the collaborator's answer, a namespace or an error.
\<close>

definition explicit_or_default_namespace :: "string + string \<Rightarrow> string \<Rightarrow> string + string" where
  "explicit_or_default_namespace dflt ns = (if ns = [] then dflt else Inr ns)"

subsection \<open>Concrete inputs\<close>

text \<open>
  Inputs on which the command is evaluated below. \<open>sample_Parse\<close> stands in for
  \<^verbatim>\<open>url.Parse\<close> there: it makes the first check of \<^verbatim>\<open>url.Parse\<close>, which rejects an
  input holding an ASCII control byte, and hands every other input back unparsed. The
  literals it is applied to, \<^verbatim>\<open>https://vc.local\<close> and \<^verbatim>\<open>http://sink\<close>, are URLs
  that \<^verbatim>\<open>url.Parse\<close> accepts.
\<close>

definition stringContainsCTLByte :: "string \<Rightarrow> bool" where
  "stringContainsCTLByte s = list_ex (\<lambda>c. (of_char c :: nat) < 32 \<or> (of_char c :: nat) = 127) s"

definition sample_Parse :: "string \<Rightarrow> string + string" where
  "sample_Parse rawURL =
     (if stringContainsCTLByte rawURL then Inl ''net/url: invalid control character in URL''
      else Inr rawURL)"

text \<open>A cluster that accepts every create request, and one that refuses every request.\<close>

definition accepting_clients :: "string Clients" where
  "accepting_clients =
     \<lparr>GetExplicitOrDefaultNamespace = explicit_or_default_namespace (Inr ''default''),
      Create = (\<lambda>namespace source. None)\<rparr>"

definition refusing_clients :: "string Clients" where
  "refusing_clients =
     \<lparr>GetExplicitOrDefaultNamespace = explicit_or_default_namespace (Inr ''default''),
      Create = (\<lambda>namespace source. Some ''the source already exists'')\<rparr>"

definition unconfigured_clients :: "string Clients" where
  "unconfigured_clients =
     \<lparr>GetExplicitOrDefaultNamespace = explicit_or_default_namespace (Inl ''invalid configuration''),
      Create = (\<lambda>namespace source. None)\<rparr>"

definition nothing_done :: "string World" where
  "nothing_done = \<lparr>creates = [], stdout = []\<rparr>"

text \<open>
  The minimal options of the spec's example; the two checkpoint durations are five minutes
  and ten seconds.
\<close>

definition minimal_options :: SourceOptions where
  "minimal_options =
     \<lparr>Namespace = [], Name = ''s'', Address = ''https://vc.local'', SkipTLSVerify = False,
      SecretRef = ''cred'', SinkURI = ''http://sink'',
      SinkAPIVersion = [], SinkKind = [], SinkName = [],
      CheckpointMaxAge = 300 * Second, CheckpointPeriod = 10 * Second\<rparr>"

section \<open>Properties\<close>

subsection \<open>The sink destination\<close>

text \<open>
  Claim C6. With \<open>sinkAPIVersion = "v1"\<close>, \<open>sinkKind = "Service"\<close>, \<open>sinkName = "svc"\<close>, an
  empty \<open>sinkURI\<close> and the namespace \<open>"ns"\<close>, the destination holds the reference
  \<open>{v1, Service, ns, svc}\<close> and no URI, whatever the other options and the URL parser are.
\<close>

theorem sink_reference_example:
  "AsSinkDestination parse
     (so\<lparr>SinkURI := [], SinkAPIVersion := ''v1'', SinkKind := ''Service'', SinkName := ''svc''\<rparr>)
     ''ns''
   = Inr \<lparr>Ref = Some \<lparr>APIVersion = ''v1'', Kind = ''Service'',
                        RefNamespace = ''ns'', RefName = ''svc''\<rparr>,
          URI = None\<rparr>"
  by (simp add: AsSinkDestination_def sinkURL_def sinkReference_def)

text \<open>
  Claim C10. For every namespace and every options record: with an empty \<open>sinkURI\<close>,
  \<open>AsSinkDestination\<close> succeeds with no URI; it fails exactly when \<open>sinkURI\<close> is non-empty
  and does not parse, with the parser's error; a destination it returns has no reference
  exactly when \<open>sinkAPIVersion\<close> is empty, whatever \<open>sinkKind\<close> and \<open>sinkName\<close> hold, and
  otherwise the reference carries \<open>sinkKind\<close> and \<open>sinkName\<close> as they are, empty or not.
\<close>

theorem AsSinkDestination_cases:
  "(SinkURI so = [] \<longrightarrow> (\<exists>d. AsSinkDestination parse so ns = Inr d \<and> URI d = None))
   \<and> (\<forall>err. AsSinkDestination parse so ns = Inl err
              \<longleftrightarrow> SinkURI so \<noteq> [] \<and> parse (SinkURI so) = Inl err)
   \<and> (\<forall>d. AsSinkDestination parse so ns = Inr d \<longrightarrow>
          (Ref d = None \<longleftrightarrow> SinkAPIVersion so = [])
          \<and> (SinkAPIVersion so \<noteq> [] \<longrightarrow>
               Ref d = Some \<lparr>APIVersion = SinkAPIVersion so, Kind = SinkKind so,
                              RefNamespace = ns, RefName = SinkName so\<rparr>))"
  by (auto simp: AsSinkDestination_def sinkURL_def sinkReference_def split: sum.splits)

theorem AsSinkDestination_cases_witness:
  "AsSinkDestination sample_Parse
     (minimal_options\<lparr>SinkURI := [], SinkKind := ''Service'', SinkName := ''svc''\<rparr>) ''ns''
     = Inr \<lparr>Ref = None, URI = None\<rparr>
   \<and> AsSinkDestination sample_Parse
     (minimal_options\<lparr>SinkURI := [], SinkAPIVersion := ''v1''\<rparr>) ''ns''
     = Inr \<lparr>Ref = Some \<lparr>APIVersion = ''v1'', Kind = [], RefNamespace = ''ns'', RefName = []\<rparr>,
            URI = None\<rparr>
   \<and> AsSinkDestination sample_Parse (minimal_options\<lparr>SinkURI := [CHR 0x7F]\<rparr>) ''ns''
     = Inl ''net/url: invalid control character in URL''"
  using AsSinkDestination_cases
          [of "minimal_options\<lparr>SinkURI := [], SinkKind := ''Service'', SinkName := ''svc''\<rparr>"
              sample_Parse "''ns''"]
        AsSinkDestination_cases
          [of "minimal_options\<lparr>SinkURI := [], SinkAPIVersion := ''v1''\<rparr>" sample_Parse "''ns''"]
        AsSinkDestination_cases
          [of "minimal_options\<lparr>SinkURI := [CHR 0x7F]\<rparr>" sample_Parse "''ns''"]
  by (simp add: minimal_options_def sample_Parse_def stringContainsCTLByte_def
        AsSinkDestination_def sinkURL_def sinkReference_def)

text \<open>
  Claim C1, as the code has it. The claim that a validated record never yields a URI and
  a reference at once fails: validation accepts a \<open>sinkURI\<close> together with a full
  coordinate triple (its message asks for a URI ``and/or'' the triple), and the destination
  then holds both.
\<close>

theorem sink_uri_and_reference_counterexample:
  "PreRunE (minimal_options\<lparr>SinkAPIVersion := ''v1'', SinkKind := ''Service'',
                            SinkName := ''svc''\<rparr>) = None
   \<and> AsSinkDestination sample_Parse
        (minimal_options\<lparr>SinkAPIVersion := ''v1'', SinkKind := ''Service'',
                          SinkName := ''svc''\<rparr>) ''ns''
     = Inr \<lparr>Ref = Some \<lparr>APIVersion = ''v1'', Kind = ''Service'',
                          RefNamespace = ''ns'', RefName = ''svc''\<rparr>,
            URI = Some ''http://sink''\<rparr>"
  by (simp add: minimal_options_def PreRunE_def sinkCoordinatesAllEmpty_def
        sinkCoordinatesAllSet_def sample_Parse_def stringContainsCTLByte_def
        AsSinkDestination_def sinkURL_def sinkReference_def)

text \<open>
  Claim C1, amended. For every options record that passes validation and whose \<open>sinkURI\<close>,
  if any, parses, a destination is built; it has a URI exactly when \<open>sinkURI\<close> is
  non-empty, and a reference exactly when the coordinate triple is set, built from the
  resolved namespace and the three coordinate fields. At least one of the two is there; with
  an empty \<open>sinkURI\<close> it is the reference alone, with an empty triple the URI alone.
\<close>

theorem validated_sink_destination:
  assumes "PreRunE so = None"
      and "SinkURI so = [] \<or> (\<exists>u. parse (SinkURI so) = Inr u)"
  shows "\<exists>d. AsSinkDestination parse so ns = Inr d
           \<and> (URI d \<noteq> None \<longleftrightarrow> SinkURI so \<noteq> [])
           \<and> (Ref d \<noteq> None \<longleftrightarrow> sinkCoordinatesAllSet so)
           \<and> (sinkCoordinatesAllSet so \<longrightarrow>
                Ref d = Some \<lparr>APIVersion = SinkAPIVersion so, Kind = SinkKind so,
                               RefNamespace = ns, RefName = SinkName so\<rparr>)
           \<and> (URI d \<noteq> None \<or> Ref d \<noteq> None)
           \<and> (SinkURI so = [] \<longrightarrow> URI d = None \<and> Ref d \<noteq> None)
           \<and> (sinkCoordinatesAllEmpty so \<longrightarrow> Ref d = None \<and> URI d \<noteq> None)"
proof -
  from assms(1) have sink:
    "\<not> (SinkURI so = [] \<and> sinkCoordinatesAllEmpty so)"
    "sinkCoordinatesAllEmpty so \<or> sinkCoordinatesAllSet so"
    by (auto simp: PreRunE_def split: if_splits)
  have "\<exists>uri. sinkURL parse so = Inr uri \<and> (uri \<noteq> None \<longleftrightarrow> SinkURI so \<noteq> [])"
    using assms(2) by (cases "SinkURI so = []") (auto simp: sinkURL_def)
  then obtain uri where uri:
    "sinkURL parse so = Inr uri" "uri \<noteq> None \<longleftrightarrow> SinkURI so \<noteq> []"
    by blast
  have ref: "sinkReference so ns =
      (if sinkCoordinatesAllSet so
       then Some \<lparr>APIVersion = SinkAPIVersion so, Kind = SinkKind so,
                  RefNamespace = ns, RefName = SinkName so\<rparr>
       else None)"
    using sink(2) by (auto simp: sinkReference_def sinkCoordinatesAllEmpty_def
        sinkCoordinatesAllSet_def)
  have "AsSinkDestination parse so ns = Inr \<lparr>Ref = sinkReference so ns, URI = uri\<rparr>"
    by (simp add: AsSinkDestination_def uri(1))
  moreover have "sinkCoordinatesAllEmpty so \<longrightarrow> \<not> sinkCoordinatesAllSet so"
    by (simp add: sinkCoordinatesAllEmpty_def sinkCoordinatesAllSet_def)
  ultimately show ?thesis using uri(2) sink ref by auto
qed

theorem validated_sink_destination_witness:
  "PreRunE minimal_options = None
   \<and> sample_Parse (SinkURI minimal_options) = Inr ''http://sink''
   \<and> AsSinkDestination sample_Parse minimal_options ''ns''
       = Inr \<lparr>Ref = None, URI = Some ''http://sink''\<rparr>"
proof -
  have v: "PreRunE minimal_options = None"
    by (simp add: minimal_options_def PreRunE_def sinkCoordinatesAllEmpty_def
          sinkCoordinatesAllSet_def)
  have p: "sample_Parse (SinkURI minimal_options) = Inr ''http://sink''"
    by (simp add: minimal_options_def sample_Parse_def stringContainsCTLByte_def)
  then have u: "SinkURI minimal_options = [] \<or> (\<exists>u. sample_Parse (SinkURI minimal_options) = Inr u)"
    by blast
  have "AsSinkDestination sample_Parse minimal_options ''ns''
       = Inr \<lparr>Ref = None, URI = Some ''http://sink''\<rparr>"
    using validated_sink_destination [of minimal_options sample_Parse "''ns''"] v u p
    by (simp add: minimal_options_def AsSinkDestination_def sinkURL_def sinkReference_def)
  with v p show ?thesis by simp
qed

subsection \<open>Validation\<close>

lemma name_required_names_flag: "sublist ''--name'' name_required"
proof -
  have eq: "name_required =
      (quote # ''name'' @ quote # '' requires a nonempty name provided with the '')
      @ ''--name'' @ '' option''"
    by (simp add: name_required_def)
  show ?thesis by (subst eq) (rule sublist_appendI)
qed

lemma address_required_names_flag: "sublist ''--address'' address_required"
proof -
  have eq: "address_required =
      (quote # ''address'' @ quote # '' requires a nonempty address provided with the '')
      @ ''--address'' @ '' option''"
    by (simp add: address_required_def)
  show ?thesis by (subst eq) (rule sublist_appendI)
qed

lemma secret_ref_required_names_flag: "sublist ''--secret-ref'' secret_ref_required"
proof -
  have eq: "secret_ref_required =
      (quote # ''secret-ref'' @
       quote # '' requires a nonempty secret reference provided with the '')
      @ ''--secret-ref'' @ '' option''"
    by (simp add: secret_ref_required_def)
  show ?thesis by (subst eq) (rule sublist_appendI)
qed

lemma required_messages_differ:
  "name_required \<noteq> sink_required" "address_required \<noteq> sink_required"
  "secret_ref_required \<noteq> sink_required"
  by (simp_all add: name_required_def address_required_def secret_ref_required_def
        sink_required_def quote_def)

text \<open>
  Claim C2. For every options record in which \<open>name\<close>, \<open>address\<close> or \<open>secretRef\<close> is empty,
  execution returns the validation error of the first of the three that is empty, in this
  order, and nothing else happens: no create request is issued and nothing is printed.
  Each of the three messages names the flag of its option.
\<close>

theorem missing_required_option:
  assumes "Name so = [] \<or> Address so = [] \<or> SecretRef so = []"
  shows "execute parse clients so w =
           (Some (if Name so = [] then name_required
                  else if Address so = [] then address_required
                  else secret_ref_required), w)
         \<and> sublist ''--name'' name_required
         \<and> sublist ''--address'' address_required
         \<and> sublist ''--secret-ref'' secret_ref_required"
  using assms name_required_names_flag address_required_names_flag
    secret_ref_required_names_flag
  by (auto simp: execute_def PreRunE_def)

theorem missing_required_option_witness:
  "SecretRef (minimal_options\<lparr>SecretRef := []\<rparr>) = []
   \<and> execute sample_Parse accepting_clients (minimal_options\<lparr>SecretRef := []\<rparr>) nothing_done
       = (Some secret_ref_required, nothing_done)"
  using missing_required_option
          [of "minimal_options\<lparr>SecretRef := []\<rparr>" sample_Parse accepting_clients nothing_done]
  by (simp add: minimal_options_def)

text \<open>
  Claim C3, as the code has it. With an empty \<open>sinkURI\<close> and an empty coordinate triple but
  no \<open>name\<close> either, the error returned is the one about \<open>name\<close>, not the one that describes
  the sink combination: the three required options are checked first.
\<close>

theorem missing_sink_counterexample:
  "execute sample_Parse accepting_clients (minimal_options\<lparr>Name := [], SinkURI := []\<rparr>)
     nothing_done = (Some name_required, nothing_done)
   \<and> name_required \<noteq> sink_required"
  by (simp add: execute_def PreRunE_def minimal_options_def required_messages_differ)

text \<open>
  Claim C3, amended. For every options record in which \<open>sinkURI\<close> is empty and at least one
  of the three coordinates is empty (the triple is partially filled or entirely empty),
  execution fails with a validation error and nothing else happens; when \<open>name\<close>,
  \<open>address\<close> and \<open>secretRef\<close> are non-empty, the error is the one that describes the
  required sink combination.
\<close>

theorem missing_sink_rejected:
  assumes "SinkURI so = []"
      and "SinkAPIVersion so = [] \<or> SinkKind so = [] \<or> SinkName so = []"
  shows "\<exists>err. PreRunE so = Some err
           \<and> execute parse clients so w = (Some err, w)
           \<and> (Name so \<noteq> [] \<and> Address so \<noteq> [] \<and> SecretRef so \<noteq> [] \<longrightarrow> err = sink_required)"
  using assms
  by (auto simp: execute_def PreRunE_def sinkCoordinatesAllEmpty_def sinkCoordinatesAllSet_def)

theorem missing_sink_rejected_witness:
  "SinkURI (minimal_options\<lparr>SinkURI := [], SinkAPIVersion := ''v1''\<rparr>) = []
   \<and> SinkKind (minimal_options\<lparr>SinkURI := [], SinkAPIVersion := ''v1''\<rparr>) = []
   \<and> execute sample_Parse accepting_clients
        (minimal_options\<lparr>SinkURI := [], SinkAPIVersion := ''v1''\<rparr>) nothing_done
       = (Some sink_required, nothing_done)"
  using missing_sink_rejected
          [of "minimal_options\<lparr>SinkURI := [], SinkAPIVersion := ''v1''\<rparr>"
              sample_Parse accepting_clients nothing_done]
  by (auto simp: minimal_options_def)

text \<open>
  Claim C9, as the code has it. With a \<open>sinkURI\<close>, a partially filled triple and no \<open>name\<close>,
  the error returned is the one about \<open>name\<close>, not the sink error.
\<close>

theorem partial_sink_with_uri_counterexample:
  "execute sample_Parse accepting_clients (minimal_options\<lparr>Name := [], SinkKind := ''Service''\<rparr>)
     nothing_done = (Some name_required, nothing_done)
   \<and> SinkURI (minimal_options\<lparr>Name := [], SinkKind := ''Service''\<rparr>) = ''http://sink''
   \<and> name_required \<noteq> sink_required"
  by (simp add: execute_def PreRunE_def minimal_options_def required_messages_differ)

text \<open>
  Claim C9, amended. For every options record in which \<open>sinkURI\<close> is non-empty and the
  coordinate triple is partially filled (neither all empty nor all set), execution fails
  with a validation error and nothing else happens; when \<open>name\<close>, \<open>address\<close> and
  \<open>secretRef\<close> are non-empty, the error is the sink error. The \<open>sinkURI\<close> does not excuse
  the partial triple.
\<close>

theorem partial_sink_rejected_despite_uri:
  assumes "SinkURI so \<noteq> []"
      and "\<not> sinkCoordinatesAllEmpty so" and "\<not> sinkCoordinatesAllSet so"
  shows "\<exists>err. PreRunE so = Some err
           \<and> execute parse clients so w = (Some err, w)
           \<and> (Name so \<noteq> [] \<and> Address so \<noteq> [] \<and> SecretRef so \<noteq> [] \<longrightarrow> err = sink_required)"
  using assms by (auto simp: execute_def PreRunE_def)

theorem partial_sink_rejected_despite_uri_witness:
  "SinkURI (minimal_options\<lparr>SinkKind := ''Service'', SinkName := ''svc''\<rparr>) \<noteq> []
   \<and> \<not> sinkCoordinatesAllEmpty (minimal_options\<lparr>SinkKind := ''Service'', SinkName := ''svc''\<rparr>)
   \<and> \<not> sinkCoordinatesAllSet (minimal_options\<lparr>SinkKind := ''Service'', SinkName := ''svc''\<rparr>)
   \<and> execute sample_Parse accepting_clients
        (minimal_options\<lparr>SinkKind := ''Service'', SinkName := ''svc''\<rparr>) nothing_done
       = (Some sink_required, nothing_done)"
  using partial_sink_rejected_despite_uri
          [of "minimal_options\<lparr>SinkKind := ''Service'', SinkName := ''svc''\<rparr>"
              sample_Parse accepting_clients nothing_done]
  by (auto simp: minimal_options_def sinkCoordinatesAllEmpty_def sinkCoordinatesAllSet_def)

subsection \<open>Checkpoint durations\<close>

text \<open>
  Facts about the rounding: the integer nearest to \<open>z\<close> is within one half of \<open>z\<close>, the
  exponent found by \<open>binade\<close> is the right one, rounding to binary64 moves a positive
  value below \<open>2\<^sup>k\<close> by at most \<open>2\<^sup>k\<^sup>-\<^sup>5\<^sup>4\<close>, and integers of a magnitude below \<open>2\<^sup>5\<^sup>3\<close>
  are not moved at all.
\<close>

lemma round_half_even_error: "\<bar>of_int (round_half_even z) - z\<bar> \<le> 1 / 2"
proof -
  have "of_int \<lfloor>z\<rfloor> \<le> z" "z < of_int \<lfloor>z\<rfloor> + 1" by linarith+
  then show ?thesis
    by (auto simp: round_half_even_def Let_def)
qed

lemma round_half_even_of_int: "round_half_even (of_int k) = k"
  by (simp add: round_half_even_def)

lemma binade_lower:
  assumes "0 < x"
  shows "2 powi binade x \<le> x"
proof (cases "1 \<le> x")
  case True
  define n where "n = \<lfloor>x\<rfloor>"
  have n: "0 < n" using True by (simp add: n_def)
  have b: "0 \<le> bitlen n - 1"
    using n bitlen_eq_zero_iff[of n] bitlen_nonneg[of n] by linarith
  have "(2::int) ^ nat (bitlen n - 1) \<le> n" using bitlen_bounds[OF n] by simp
  then have "of_int ((2::int) ^ nat (bitlen n - 1)) \<le> (of_int n :: rat)"
    by (simp only: of_int_le_iff)
  also have "\<dots> \<le> x" by (simp add: n_def)
  finally have "(2::rat) ^ nat (bitlen n - 1) \<le> x" by simp
  then show ?thesis using True b by (simp add: binade_def n_def power_int_nonneg_exp)
next
  case False
  define m where "m = \<lceil>1 / x\<rceil> - 1"
  have y: "1 < 1 / x" using assms False by simp
  then have m: "0 < m" unfolding m_def by linarith
  have "m < 2 ^ nat (bitlen m)" using bitlen_bounds[OF m] by simp
  then have "\<lceil>1 / x\<rceil> \<le> 2 ^ nat (bitlen m)" by (simp add: m_def)
  then have "1 / x \<le> of_int (2 ^ nat (bitlen m))" by (simp only: ceiling_le_iff)
  then have "1 / x \<le> 2 ^ nat (bitlen m)" by simp
  then have "1 / 2 ^ nat (bitlen m) \<le> x" using assms
    by (simp add: field_simps)
  moreover have "(2::rat) powi (- bitlen m) = 1 / 2 ^ nat (bitlen m)"
    using bitlen_nonneg[of m] by (simp add: power_int_minus_divide power_int_nonneg_exp)
  ultimately show ?thesis using False by (simp add: binade_def m_def)
qed

lemma binade_upper:
  assumes "0 < x"
  shows "x < 2 powi (binade x + 1)"
proof (cases "1 \<le> x")
  case True
  define n where "n = \<lfloor>x\<rfloor>"
  have n: "0 < n" using True by (simp add: n_def)
  have b: "0 \<le> bitlen n" by (rule bitlen_nonneg)
  have "n < 2 ^ nat (bitlen n)" using bitlen_bounds[OF n] by simp
  then have "n + 1 \<le> 2 ^ nat (bitlen n)" by simp
  then have "(of_int (n + 1) :: rat) \<le> of_int (2 ^ nat (bitlen n))"
    by (simp only: of_int_le_iff)
  moreover have "x < of_int (n + 1)" unfolding n_def by linarith
  ultimately have "x < 2 ^ nat (bitlen n)" by simp
  then show ?thesis using True b by (simp add: binade_def n_def power_int_nonneg_exp)
next
  case False
  define m where "m = \<lceil>1 / x\<rceil> - 1"
  have y: "1 < 1 / x" using assms False by simp
  then have m: "0 < m" unfolding m_def by linarith
  have k: "1 \<le> bitlen m" using m bitlen_eq_zero_iff[of m] bitlen_nonneg[of m] by linarith
  have "2 ^ nat (bitlen m - 1) \<le> m" using bitlen_bounds[OF m] by simp
  then have "2 ^ nat (bitlen m - 1) < \<lceil>1 / x\<rceil>" by (simp add: m_def)
  then have "of_int (2 ^ nat (bitlen m - 1)) < 1 / x" by (simp only: less_ceiling_iff)
  then have "2 ^ nat (bitlen m - 1) < 1 / x" by simp
  then have "x < 1 / 2 ^ nat (bitlen m - 1)" using assms
    by (simp add: field_simps)
  moreover have "(2::rat) powi (- bitlen m + 1) = 1 / 2 ^ nat (bitlen m - 1)"
    using k power_int_minus_divide[of "2::rat" "bitlen m - 1"] by (simp add: power_int_nonneg_exp)
  ultimately show ?thesis using False by (simp add: binade_def m_def)
qed

lemma binade_less:
  assumes "0 < x" "x < 2 powi k"
  shows "binade x < k"
proof -
  have lt: "(2::rat) powi binade x < 2 powi k" using binade_lower[OF assms(1)] assms(2) by simp
  show ?thesis
  proof (rule ccontr)
    assume "\<not> binade x < k"
    then have "(2::rat) powi k \<le> 2 powi binade x"
      by (intro power_int_increasing) simp_all
    with lt show False by simp
  qed
qed

text \<open>
  The rounding on known values: one tenth is the binary64 number \<open>0x3FB999999999999A\<close>,
  \<open>2\<^sup>5\<^sup>3 + 1\<close> is a tie and goes to the even significand, \<open>2\<^sup>5\<^sup>3 + 3\<close> likewise.
\<close>

lemma float64_examples:
  "float64 (1 / 10) = 3602879701896397 / 36028797018963968"
  "float64 9007199254740993 = 9007199254740992"
  "float64 9007199254740995 = 9007199254740996"
  "float64 (- 5 / 2) = - 5 / 2"
  by code_simp+

lemma float64_minus: "float64 (- x) = - float64 x"
  by (simp add: float64_def Let_def sgn_minus)

lemma float64_error:
  assumes "0 < x" "x < 2 powi k"
  shows "\<bar>float64 x - x\<bar> \<le> 2 powi (k - 54)"
proof -
  define u :: rat where "u = 2 powi (binade x - 52)"
  have u: "0 < u" by (simp add: u_def)
  have fx: "float64 x = of_int (round_half_even (x / u)) * u"
    using assms(1) by (simp add: float64_def Let_def u_def)
  have "float64 x - x = (of_int (round_half_even (x / u)) - x / u) * u"
    using u by (simp add: fx field_simps)
  then have "\<bar>float64 x - x\<bar> = \<bar>of_int (round_half_even (x / u)) - x / u\<bar> * u"
    using u by (simp add: abs_mult)
  also have "\<dots> \<le> 1 / 2 * u"
    using round_half_even_error[of "x / u"] u by (intro mult_right_mono) simp_all
  also have "\<dots> = 2 powi (binade x - 53)"
    using power_int_add[of "2::rat" "binade x - 53" 1] by (simp add: u_def)
  also have "\<dots> \<le> 2 powi (k - 54)"
    using binade_less[OF assms] by (intro power_int_increasing) simp_all
  finally show ?thesis .
qed

lemma float64_of_int:
  assumes "\<bar>n\<bar> < 2 ^ 53"
  shows "float64 (of_int n) = of_int n"
proof -
  have pos: "float64 (of_int m) = of_int m" if m: "0 < m" "m < 2 ^ 53" for m :: int
  proof -
    define e where "e = binade (of_int m)"
    have "(of_int m :: rat) < 2 powi 53" using m(2) by (simp add: of_int_less_iff[symmetric] del: of_int_less_iff)
    then have e: "e < 53" unfolding e_def using m(1) by (intro binade_less) simp_all
    define j where "j = nat (52 - e)"
    have u: "(2::rat) powi (e - 52) = 1 / 2 ^ j"
      using e power_int_minus_divide[of "2::rat" "52 - e"] by (simp add: j_def power_int_nonneg_exp)
    have "of_int m / (1 / 2 ^ j) = (of_int (m * 2 ^ j) :: rat)" by simp
    then have "round_half_even (of_int m / (1 / 2 ^ j)) = m * 2 ^ j"
      by (simp only: round_half_even_of_int)
    then show ?thesis using m(1) u
      by (simp add: float64_def Let_def e_def[symmetric])
  qed
  consider "n = 0" | "0 < n" | "n < 0" by linarith
  then show ?thesis
  proof cases
    case 1 then show ?thesis by (simp add: float64_def)
  next
    case 2 then show ?thesis using assms pos[of n] by simp
  next
    case 3 
    then have "float64 (of_int (- n)) = of_int (- n)" using assms by (intro pos) simp_all
    then show ?thesis by (simp add: float64_minus)
  qed
qed


lemma Seconds_minus: "Seconds (- d) = - Seconds d"
proof -
  have "(- d) sdiv Second = - (d sdiv Second)" "(- d) smod Second = - (d smod Second)"
    by (simp_all add: signed_divide_int_def signed_modulo_int_def)
  then have "Seconds (- d) =
      float64 (- (float64 (of_int (d sdiv Second)) +
                  float64 (float64 (of_int (d smod Second)) / 1000000000)))"
    by (simp add: Seconds_def Let_def float64_minus)
  then show ?thesis
    by (simp only: float64_minus Seconds_def Let_def)
qed

lemma int64_of_float_minus: "int64_of_float (- f) = - int64_of_float f"
  by (auto simp: int64_of_float_def ceiling_minus ceiling_def)

lemma Seconds_truncates_nonneg:
  assumes "0 \<le> d" "d < 16777216 * Second"
  shows "int64_of_float (Seconds d) = d div Second"
proof -
  define sec where "sec = d div Second"
  define nsec where "nsec = d mod Second"
  have S: "Second = 1000000000" by (simp add: Second_def)
  have sec: "0 \<le> sec" "sec < 16777216" using assms by (simp_all add: sec_def S div_less_iff_less_mult pos_imp_zdiv_nonneg_iff)
  have nsec: "0 \<le> nsec" "nsec < 1000000000" by (simp_all add: nsec_def S)
  have sd: "d sdiv Second = sec" "d smod Second = nsec"
    using assms(1) by (auto simp: signed_divide_int_def signed_modulo_int_def sec_def nsec_def S sgn_if)
  have fsec: "float64 (of_int sec) = of_int sec" using sec by (intro float64_of_int) simp
  have fnsec: "float64 (of_int nsec) = of_int nsec" using nsec by (intro float64_of_int) simp
  define q where "q = float64 (of_int nsec / 1000000000)"
  have Sd: "Seconds d = float64 (of_int sec + q)"
    by (simp add: Seconds_def Let_def sd fsec fnsec q_def)
  show ?thesis
  proof (cases "nsec = 0")
    case True
    then have "q = 0" by (simp add: q_def float64_def)
    then have "Seconds d = of_int sec" by (simp add: Sd fsec)
    then have "int64_of_float (Seconds d) = sec" using sec by (simp add: int64_of_float_def)
    then show ?thesis by (simp add: sec_def)
  next
    case False
    define x :: rat where "x = of_int nsec / 1000000000"
    have "1 \<le> nsec" "nsec \<le> 999999999" using False nsec by simp_all
    then have "(of_int 1 :: rat) \<le> of_int nsec" "(of_int nsec :: rat) \<le> of_int 999999999"
      by (simp_all only: of_int_le_iff)
    then have x: "1 / 1000000000 \<le> x" "x \<le> 999999999 / 1000000000"
      by (simp_all add: x_def)
    have "\<bar>float64 x - x\<bar> \<le> 2 powi (0 - 54)"
      using x by (intro float64_error) simp_all
    then have qx: "\<bar>q - x\<bar> \<le> 1 / 18014398509481984"
      by (simp add: q_def x_def power_int_minus_divide)
    have qb: "1 / 1000000000 - 1 / 18014398509481984 \<le> q"
             "q \<le> 999999999 / 1000000000 + 1 / 18014398509481984"
      using qx x by linarith+
    define y :: rat where "y = of_int sec + q"
    have "(of_int 0 :: rat) \<le> of_int sec" "(of_int sec :: rat) \<le> of_int 16777215"
      using sec by (simp_all only: of_int_le_iff)
    then have rs: "0 \<le> (of_int sec :: rat)" "(of_int sec :: rat) \<le> 16777215" by simp_all
    have y: "0 < y" "y < 16777216" unfolding y_def using rs qb by linarith+
    have "\<bar>float64 y - y\<bar> \<le> 2 powi (24 - 54)"
      using y by (intro float64_error) simp_all
    then have fy: "\<bar>float64 y - y\<bar> \<le> 1 / 1073741824"
      using power_int_minus_divide[of "2::rat" 30] by simp
    have lo: "of_int sec < float64 y" using fy qb unfolding y_def by linarith
    have hi: "float64 y < of_int sec + 1" using fy qb unfolding y_def by linarith
    have "\<lfloor>float64 y\<rfloor> = sec" using lo hi by (simp add: floor_unique)
    moreover have "0 \<le> float64 y" using lo rs by simp
    ultimately show ?thesis by (simp add: Sd y_def int64_of_float_def sec_def)
  qed
qed

lemma Seconds_truncates:
  assumes "\<bar>d\<bar> < 16777216 * Second"
  shows "int64_of_float (Seconds d) = d sdiv Second"
proof (cases "0 \<le> d")
  case True
  then have "d sdiv Second = d div Second"
    by (auto simp: signed_divide_int_def Second_def sgn_if)
  then show ?thesis using Seconds_truncates_nonneg[of d] True assms by simp
next
  case False
  then have "(- d) sdiv Second = (- d) div Second"
    by (auto simp: signed_divide_int_def Second_def sgn_if)
  moreover have "int64_of_float (Seconds (- d)) = (- d) div Second"
    using False assms by (intro Seconds_truncates_nonneg) simp_all
  moreover have "(- d) sdiv Second = - (d sdiv Second)"
    by (simp add: signed_divide_int_def)
  ultimately show ?thesis by (simp add: Seconds_minus int64_of_float_minus)
qed

lemma Seconds_rounds_up: "int64_of_float (Seconds 16777216999999999) = 16777217"
  by code_simp

text \<open>
  Claim C4, as the code has it. \<^verbatim>\<open>Seconds\<close> goes through binary64, whose numbers are
  \<open>2\<^sup>-\<^sup>2\<^sup>8\<close> apart from \<open>2\<^sup>2\<^sup>4\<close> on: a maximal age of \<open>2\<^sup>2\<^sup>4\<close> seconds and 999999999
  nanoseconds, a valid \<^verbatim>\<open>int64\<close> duration, becomes 16777217.0 and is stored as
  16777217, one more than the 16777216 whole seconds it holds.
\<close>

theorem checkpoint_seconds_counterexample:
  "MaxAgeSeconds (CheckpointConfig (Spec
     (newSource ''default'' \<lparr>Ref = None, URI = Some ''http://sink''\<rparr> ''https://vc.local''
        (minimal_options\<lparr>CheckpointMaxAge := 16777216999999999\<rparr>)))) = 16777217
   \<and> (16777216999999999 :: int) sdiv Second = 16777216
   \<and> (16777216999999999 :: int) < 2 ^ 63"
  by (simp add: newSource_def Seconds_rounds_up signed_divide_int_def Second_def)

text \<open>
  Claim C4, amended. For every \<open>checkpointMaxAge\<close> and \<open>checkpointPeriod\<close> of a magnitude
  below \<open>2\<^sup>2\<^sup>4\<close> seconds (16777216 seconds, about 194 days), the assembled resource stores
  \<open>MaxAgeSeconds\<close> and \<open>PeriodSeconds\<close> as the duration in whole seconds, truncated toward
  zero; 90 seconds and 500 milliseconds are stored as 90.
\<close>

theorem checkpoint_seconds_truncate:
  "(\<bar>CheckpointMaxAge options\<bar> < 16777216 * Second \<longrightarrow>
      MaxAgeSeconds (CheckpointConfig (Spec (newSource namespace sinkDestination address options)))
        = CheckpointMaxAge options sdiv Second)
   \<and> (\<bar>CheckpointPeriod options\<bar> < 16777216 * Second \<longrightarrow>
      PeriodSeconds (CheckpointConfig (Spec (newSource namespace sinkDestination address options)))
        = CheckpointPeriod options sdiv Second)"
  by (simp add: newSource_def Seconds_truncates)

theorem checkpoint_seconds_truncate_witness:
  "\<bar>CheckpointMaxAge (minimal_options\<lparr>CheckpointMaxAge := 90 * Second + 500000000\<rparr>)\<bar>
      < 16777216 * Second
   \<and> \<bar>CheckpointPeriod (minimal_options\<lparr>CheckpointPeriod := - 1500000000\<rparr>)\<bar>
      < 16777216 * Second
   \<and> MaxAgeSeconds (CheckpointConfig (Spec
        (newSource ''default'' \<lparr>Ref = None, URI = Some ''http://sink''\<rparr> ''https://vc.local''
           (minimal_options\<lparr>CheckpointMaxAge := 90 * Second + 500000000\<rparr>)))) = 90
   \<and> PeriodSeconds (CheckpointConfig (Spec
        (newSource ''default'' \<lparr>Ref = None, URI = Some ''http://sink''\<rparr> ''https://vc.local''
           (minimal_options\<lparr>CheckpointPeriod := - 1500000000\<rparr>)))) = - 1"
  using checkpoint_seconds_truncate
          [of "minimal_options\<lparr>CheckpointMaxAge := 90 * Second + 500000000\<rparr>"
              "''default''" "\<lparr>Ref = None, URI = Some ''http://sink''\<rparr>" "''https://vc.local''"]
        checkpoint_seconds_truncate
          [of "minimal_options\<lparr>CheckpointPeriod := - 1500000000\<rparr>"
              "''default''" "\<lparr>Ref = None, URI = Some ''http://sink''\<rparr>" "''https://vc.local''"]
  by (simp add: signed_divide_int_def Second_def)

subsection \<open>Running the command\<close>

text \<open>
  Claim C5. With the minimal options (\<open>name = "s"\<close>, \<open>address = "https://vc.local"\<close>,
  \<open>secretRef = "cred"\<close>, \<open>sinkURI = "http://sink"\<close>, no sink coordinates), URLs that parse,
  a namespace that resolves and a client that accepts, execution succeeds and issues one
  create request, in the resolved namespace; the resource submitted has the parsed address
  as its \<open>Address\<close> and \<open>"cred"\<close> as its \<open>SecretRef.Name\<close>; the line \<open>Created source\<close> is
  written to the output, and nothing else changes.
\<close>

theorem minimal_options_create:
  assumes "Name so = ''s''" and "Address so = ''https://vc.local''"
      and "SecretRef so = ''cred''" and "SinkURI so = ''http://sink''"
      and "sinkCoordinatesAllEmpty so"
      and "parse ''https://vc.local'' = Inr address"
      and "parse ''http://sink'' = Inr sink"
      and "GetExplicitOrDefaultNamespace clients (Namespace so) = Inr ns"
      and "\<forall>namespace source. Create clients namespace source = None"
  shows "\<exists>source.
           execute parse clients so w =
             (None, w\<lparr>creates := creates w @ [(ns, source)],
                      stdout := stdout w @ ''Created source'' @ [newline]\<rparr>)
           \<and> source = newSource ns \<lparr>Ref = None, URI = Some sink\<rparr> address so
           \<and> VAddress (VAuthSpec (Spec source)) = address
           \<and> LocalName (VSecretRef (VAuthSpec (Spec source))) = ''cred''"
proof -
  have "PreRunE so = None"
    using assms(1-5) by (simp add: PreRunE_def)
  moreover have "AsSinkDestination parse so ns = Inr \<lparr>Ref = None, URI = Some sink\<rparr>"
    using assms(4,5,7)
    by (simp add: AsSinkDestination_def sinkURL_def sinkReference_def sinkCoordinatesAllEmpty_def)
  ultimately have "execute parse clients so w =
      (None, w\<lparr>creates := creates w @ [(ns, newSource ns \<lparr>Ref = None, URI = Some sink\<rparr> address so)],
               stdout := stdout w @ ''Created source'' @ [newline]\<rparr>)"
    using assms(2,6,8,9) by (simp add: execute_def RunE_def Let_def)
  moreover have "VAddress (VAuthSpec (Spec (newSource ns \<lparr>Ref = None, URI = Some sink\<rparr> address so)))
      = address"
    by (simp add: newSource_def)
  moreover have "LocalName (VSecretRef (VAuthSpec (Spec
      (newSource ns \<lparr>Ref = None, URI = Some sink\<rparr> address so)))) = ''cred''"
    using assms(3) by (simp add: newSource_def)
  ultimately show ?thesis by blast
qed

theorem minimal_options_create_witness:
  "execute sample_Parse accepting_clients minimal_options nothing_done =
     (None,
      \<lparr>creates = [(''default'',
          newSource ''default'' \<lparr>Ref = None, URI = Some ''http://sink''\<rparr> ''https://vc.local''
            minimal_options)],
       stdout = ''Created source'' @ [newline]\<rparr>)"
proof -
  have "sample_Parse ''https://vc.local'' = Inr ''https://vc.local''"
       "sample_Parse ''http://sink'' = Inr ''http://sink''"
    by (simp_all add: sample_Parse_def stringContainsCTLByte_def)
  moreover have
    "GetExplicitOrDefaultNamespace accepting_clients (Namespace minimal_options) = Inr ''default''"
    "\<forall>namespace source. Create accepting_clients namespace source = None"
    by (simp_all add: accepting_clients_def explicit_or_default_namespace_def minimal_options_def)
  moreover have "Name minimal_options = ''s''" "Address minimal_options = ''https://vc.local''"
    "SecretRef minimal_options = ''cred''" "SinkURI minimal_options = ''http://sink''"
    "sinkCoordinatesAllEmpty minimal_options"
    by (simp_all add: minimal_options_def sinkCoordinatesAllEmpty_def)
  ultimately show ?thesis
    using minimal_options_create
            [of minimal_options sample_Parse "''https://vc.local''" "''http://sink''"
                accepting_clients "''default''" nothing_done]
    by (auto simp: nothing_done_def)
qed

text \<open>
  Claim C7. Every execution issues at most one create request. A successful one issues
  exactly one, which the client accepted, and then prints its line. A failed one returns
  its error and either leaves everything as it was (validation, namespace resolution and
  URL parsing fail before the request), or has issued the one request, which the client
  refused: nothing is printed, nothing is retried, and the error is
  \<open>failed to create source:\<close> followed by the client's error.
\<close>

theorem execute_single_attempt:
  "(case execute parse clients so w of
      (None, w') \<Rightarrow>
        (\<exists>ns source. Create clients ns source = None
           \<and> w' = w\<lparr>creates := creates w @ [(ns, source)],
                     stdout := stdout w @ ''Created source'' @ [newline]\<rparr>)
    | (Some err, w') \<Rightarrow>
        w' = w
        \<or> (\<exists>ns source cause. Create clients ns source = Some cause
              \<and> err = ''failed to create source: '' @ cause
              \<and> w' = w\<lparr>creates := creates w @ [(ns, source)]\<rparr>))
   \<and> length (creates (snd (execute parse clients so w))) \<le> Suc (length (creates w))
   \<and> (PreRunE so \<noteq> None \<longrightarrow> execute parse clients so w = (PreRunE so, w))
   \<and> (\<forall>cause. PreRunE so = None
         \<and> GetExplicitOrDefaultNamespace clients (Namespace so) = Inl cause
         \<longrightarrow> execute parse clients so w = (Some (''failed to get namespace: '' @ cause), w))
   \<and> (\<forall>ns cause. PreRunE so = None
         \<and> GetExplicitOrDefaultNamespace clients (Namespace so) = Inr ns
         \<and> parse (Address so) = Inl cause
         \<longrightarrow> execute parse clients so w = (Some (''failed to parse source address: '' @ cause), w))
   \<and> (\<forall>ns address cause. PreRunE so = None
         \<and> GetExplicitOrDefaultNamespace clients (Namespace so) = Inr ns
         \<and> parse (Address so) = Inr address
         \<and> AsSinkDestination parse so ns = Inl cause
         \<longrightarrow> execute parse clients so w = (Some (''failed to parse sink address: '' @ cause), w))
   \<and> (\<forall>ns address sink cause. PreRunE so = None
         \<and> GetExplicitOrDefaultNamespace clients (Namespace so) = Inr ns
         \<and> parse (Address so) = Inr address
         \<and> AsSinkDestination parse so ns = Inr sink
         \<and> Create clients ns (newSource ns sink address so) = Some cause
         \<longrightarrow> execute parse clients so w =
               (Some (''failed to create source: '' @ cause),
                w\<lparr>creates := creates w @ [(ns, newSource ns sink address so)]\<rparr>))"
proof -
  have shape: "case execute parse clients so w of
      (None, w') \<Rightarrow>
        (\<exists>ns source. Create clients ns source = None
           \<and> w' = w\<lparr>creates := creates w @ [(ns, source)],
                     stdout := stdout w @ ''Created source'' @ [newline]\<rparr>)
    | (Some err, w') \<Rightarrow>
        w' = w
        \<or> (\<exists>ns source cause. Create clients ns source = Some cause
              \<and> err = ''failed to create source: '' @ cause
              \<and> w' = w\<lparr>creates := creates w @ [(ns, source)]\<rparr>)"
    by (auto simp: execute_def RunE_def Let_def split: option.splits sum.splits)
  have count: "length (creates (snd (execute parse clients so w))) \<le> Suc (length (creates w))"
    by (auto simp: execute_def RunE_def Let_def split: option.splits sum.splits)
  have stages:
    "PreRunE so \<noteq> None \<longrightarrow> execute parse clients so w = (PreRunE so, w)"
    "\<forall>cause. PreRunE so = None
         \<and> GetExplicitOrDefaultNamespace clients (Namespace so) = Inl cause
         \<longrightarrow> execute parse clients so w = (Some (''failed to get namespace: '' @ cause), w)"
    "\<forall>ns cause. PreRunE so = None
         \<and> GetExplicitOrDefaultNamespace clients (Namespace so) = Inr ns
         \<and> parse (Address so) = Inl cause
         \<longrightarrow> execute parse clients so w = (Some (''failed to parse source address: '' @ cause), w)"
    "\<forall>ns address cause. PreRunE so = None
         \<and> GetExplicitOrDefaultNamespace clients (Namespace so) = Inr ns
         \<and> parse (Address so) = Inr address
         \<and> AsSinkDestination parse so ns = Inl cause
         \<longrightarrow> execute parse clients so w = (Some (''failed to parse sink address: '' @ cause), w)"
    "\<forall>ns address sink cause. PreRunE so = None
         \<and> GetExplicitOrDefaultNamespace clients (Namespace so) = Inr ns
         \<and> parse (Address so) = Inr address
         \<and> AsSinkDestination parse so ns = Inr sink
         \<and> Create clients ns (newSource ns sink address so) = Some cause
         \<longrightarrow> execute parse clients so w =
               (Some (''failed to create source: '' @ cause),
                w\<lparr>creates := creates w @ [(ns, newSource ns sink address so)]\<rparr>)"
    by (auto simp: execute_def RunE_def Let_def)
  from shape count stages show ?thesis by (intro conjI)
qed

theorem execute_single_attempt_witness:
  "execute sample_Parse refusing_clients minimal_options nothing_done =
     (Some ''failed to create source: the source already exists'',
      \<lparr>creates = [(''default'',
          newSource ''default'' \<lparr>Ref = None, URI = Some ''http://sink''\<rparr> ''https://vc.local''
            minimal_options)],
       stdout = []\<rparr>)
   \<and> execute sample_Parse refusing_clients (minimal_options\<lparr>Address := [CHR 0x7F]\<rparr>) nothing_done =
     (Some ''failed to parse source address: net/url: invalid control character in URL'',
      nothing_done)"
proof -
  have v: "PreRunE minimal_options = None"
          "PreRunE (minimal_options\<lparr>Address := [CHR 0x7F]\<rparr>) = None"
    by (simp_all add: minimal_options_def PreRunE_def sinkCoordinatesAllEmpty_def
          sinkCoordinatesAllSet_def)
  have n: "GetExplicitOrDefaultNamespace refusing_clients (Namespace minimal_options)
            = Inr ''default''"
          "GetExplicitOrDefaultNamespace refusing_clients
             (Namespace (minimal_options\<lparr>Address := [CHR 0x7F]\<rparr>)) = Inr ''default''"
    by (simp_all add: refusing_clients_def explicit_or_default_namespace_def minimal_options_def)
  have a: "sample_Parse (Address minimal_options) = Inr ''https://vc.local''"
          "sample_Parse (Address (minimal_options\<lparr>Address := [CHR 0x7F]\<rparr>))
            = Inl ''net/url: invalid control character in URL''"
    by (simp_all add: sample_Parse_def stringContainsCTLByte_def minimal_options_def)
  have s: "AsSinkDestination sample_Parse minimal_options ''default''
            = Inr \<lparr>Ref = None, URI = Some ''http://sink''\<rparr>"
    by (simp add: AsSinkDestination_def sinkURL_def sinkReference_def sample_Parse_def
          stringContainsCTLByte_def minimal_options_def)
  have c: "Create refusing_clients ''default''
             (newSource ''default'' \<lparr>Ref = None, URI = Some ''http://sink''\<rparr> ''https://vc.local''
                minimal_options) = Some ''the source already exists''"
    by (simp add: refusing_clients_def)
  show ?thesis
    using execute_single_attempt
            [where parse = sample_Parse and clients = refusing_clients
               and so = minimal_options and w = nothing_done]
          execute_single_attempt
            [where parse = sample_Parse and clients = refusing_clients
               and so = "minimal_options\<lparr>Address := [CHR 0x7F]\<rparr>" and w = nothing_done]
          v n a s c
    by (simp add: nothing_done_def)
qed

text \<open>
  Claim C8. With the resolver of the spec, the effective namespace is the \<open>namespace\<close>
  option when that is non-empty and the collaborator's default when it is empty. When the
  resolution fails, a validated execution returns \<open>failed to get namespace:\<close> followed by
  the cause and does nothing else, whatever the address and the sink are. When it
  succeeds and the address and the sink parse, the one create request is issued in the
  resolved namespace for a resource whose metadata carries the same namespace, as does the
  sink reference if there is one.
\<close>

theorem namespace_resolution:
  assumes "GetExplicitOrDefaultNamespace clients = explicit_or_default_namespace dflt"
      and "PreRunE so = None"
  shows "(Namespace so \<noteq> [] \<longrightarrow>
            GetExplicitOrDefaultNamespace clients (Namespace so) = Inr (Namespace so))
         \<and> (Namespace so = [] \<longrightarrow> GetExplicitOrDefaultNamespace clients (Namespace so) = dflt)
         \<and> (\<forall>cause. GetExplicitOrDefaultNamespace clients (Namespace so) = Inl cause \<longrightarrow>
               execute parse clients so w = (Some (''failed to get namespace: '' @ cause), w))
         \<and> (\<forall>ns address sink.
               GetExplicitOrDefaultNamespace clients (Namespace so) = Inr ns
               \<and> parse (Address so) = Inr address
               \<and> AsSinkDestination parse so ns = Inr sink \<longrightarrow>
               creates (snd (execute parse clients so w))
                 = creates w @ [(ns, newSource ns sink address so)]
               \<and> MetaNamespace (ObjectMeta (newSource ns sink address so)) = ns
               \<and> (\<forall>r. Ref (Sink (SourceSpec (Spec (newSource ns sink address so)))) = Some r
                      \<longrightarrow> RefNamespace r = ns))"
proof -
  have resolve:
    "Namespace so \<noteq> [] \<longrightarrow>
       GetExplicitOrDefaultNamespace clients (Namespace so) = Inr (Namespace so)"
    "Namespace so = [] \<longrightarrow> GetExplicitOrDefaultNamespace clients (Namespace so) = dflt"
    by (simp_all add: assms(1) explicit_or_default_namespace_def)
  have failure:
    "\<forall>cause. GetExplicitOrDefaultNamespace clients (Namespace so) = Inl cause \<longrightarrow>
       execute parse clients so w = (Some (''failed to get namespace: '' @ cause), w)"
    by (simp add: execute_def RunE_def assms(2))
  have success:
    "\<forall>ns address sink.
       GetExplicitOrDefaultNamespace clients (Namespace so) = Inr ns
       \<and> parse (Address so) = Inr address
       \<and> AsSinkDestination parse so ns = Inr sink \<longrightarrow>
       creates (snd (execute parse clients so w))
         = creates w @ [(ns, newSource ns sink address so)]
       \<and> MetaNamespace (ObjectMeta (newSource ns sink address so)) = ns
       \<and> (\<forall>r. Ref (Sink (SourceSpec (Spec (newSource ns sink address so)))) = Some r
              \<longrightarrow> RefNamespace r = ns)"
    by (auto simp: execute_def RunE_def Let_def assms(2) newSource_def AsSinkDestination_def
          sinkReference_def split: option.splits sum.splits if_splits)
  from resolve failure success show ?thesis by (intro conjI)
qed

theorem namespace_resolution_witness:
  "creates (snd (execute sample_Parse accepting_clients
      (minimal_options\<lparr>Namespace := ''ns''\<rparr>) nothing_done))
     = [(''ns'', newSource ''ns'' \<lparr>Ref = None, URI = Some ''http://sink''\<rparr> ''https://vc.local''
                  (minimal_options\<lparr>Namespace := ''ns''\<rparr>))]
   \<and> creates (snd (execute sample_Parse accepting_clients minimal_options nothing_done))
     = [(''default'', newSource ''default'' \<lparr>Ref = None, URI = Some ''http://sink''\<rparr>
                       ''https://vc.local'' minimal_options)]
   \<and> execute sample_Parse unconfigured_clients minimal_options nothing_done
     = (Some ''failed to get namespace: invalid configuration'', nothing_done)"
proof -
  have g: "GetExplicitOrDefaultNamespace accepting_clients
             = explicit_or_default_namespace (Inr ''default'')"
          "GetExplicitOrDefaultNamespace unconfigured_clients
             = explicit_or_default_namespace (Inl ''invalid configuration'')"
    by (simp_all add: accepting_clients_def unconfigured_clients_def)
  have v: "PreRunE minimal_options = None"
          "PreRunE (minimal_options\<lparr>Namespace := ''ns''\<rparr>) = None"
    by (simp_all add: minimal_options_def PreRunE_def sinkCoordinatesAllEmpty_def
          sinkCoordinatesAllSet_def)
  have a: "sample_Parse (Address minimal_options) = Inr ''https://vc.local''"
          "sample_Parse (Address (minimal_options\<lparr>Namespace := ''ns''\<rparr>)) = Inr ''https://vc.local''"
    by (simp_all add: sample_Parse_def stringContainsCTLByte_def minimal_options_def)
  have s: "AsSinkDestination sample_Parse minimal_options ''default''
            = Inr \<lparr>Ref = None, URI = Some ''http://sink''\<rparr>"
          "AsSinkDestination sample_Parse (minimal_options\<lparr>Namespace := ''ns''\<rparr>) ''ns''
            = Inr \<lparr>Ref = None, URI = Some ''http://sink''\<rparr>"
    by (simp_all add: AsSinkDestination_def sinkURL_def sinkReference_def sample_Parse_def
          stringContainsCTLByte_def minimal_options_def)
  have n: "Namespace minimal_options = []" "Namespace (minimal_options\<lparr>Namespace := ''ns''\<rparr>) = ''ns''"
    by (simp_all add: minimal_options_def)
  show ?thesis
    using namespace_resolution [OF g(1) v(2), where parse = sample_Parse and w = nothing_done]
          namespace_resolution [OF g(1) v(1), where parse = sample_Parse and w = nothing_done]
          namespace_resolution [OF g(2) v(1), where parse = sample_Parse and w = nothing_done]
          a s n
    by (simp add: nothing_done_def)
qed

end
